theory Spec2Isabelle
  imports Main "HOL-Library.AList"
begin

section \<open>JavaScript values and the object store\<close>

text \<open>
  \<^verbatim>\<open>pRequest\<close> of \<^verbatim>\<open>src/pkit.js\<close> works on untyped JavaScript values and mutates
  objects it is handed by reference. Values are therefore a datatype, and objects live in
  an explicit store: an object is its list of own enumerable properties in insertion
  order, a reference is an address. \<open>Fn\<close> is a reference to a function object; it differs
  from \<open>Ref\<close> only in what \<^verbatim>\<open>typeof\<close> answers.
\<close>

type_synonym addr = nat

datatype jsval =
    Undefined
  | Null
  | Bool bool
  | Num int
  | Str string
  | Ref addr
  | Fn addr

type_synonym obj = "(string \<times> jsval) list"

record heap =
  cells :: "addr \<Rightarrow> obj"
  fresh :: addr

datatype jserror =
    TypeError
  | SyntaxError string
  | ErrorObj string

fun typeof :: "jsval \<Rightarrow> string" where
  "typeof Undefined = ''undefined''"
| "typeof Null = ''object''"
| "typeof (Bool b) = ''boolean''"
| "typeof (Num n) = ''number''"
| "typeof (Str s) = ''string''"
| "typeof (Ref a) = ''object''"
| "typeof (Fn a) = ''function''"

fun truthy :: "jsval \<Rightarrow> bool" where
  "truthy Undefined = False"
| "truthy Null = False"
| "truthy (Bool b) = b"
| "truthy (Num n) = (n \<noteq> 0)"
| "truthy (Str s) = (s \<noteq> [])"
| "truthy (Ref a) = True"
| "truthy (Fn a) = True"

definition lookup :: "obj \<Rightarrow> string \<Rightarrow> jsval" where
  "lookup ps k = (case map_of ps k of None \<Rightarrow> Undefined | Some v \<Rightarrow> v)"

text \<open>
  Property read \<^verbatim>\<open>v[k]\<close>. Reading from \<^verbatim>\<open>undefined\<close> or \<^verbatim>\<open>null\<close> throws a
  TypeError. A primitive answers \<^verbatim>\<open>undefined\<close> for the property names this program reads
  (\<^verbatim>\<open>url\<close>, \<^verbatim>\<open>body\<close>, \<^verbatim>\<open>headers\<close>), none of which is on a built-in prototype.
\<close>

fun get_prop :: "heap \<Rightarrow> jsval \<Rightarrow> string \<Rightarrow> jserror + jsval" where
  "get_prop h Undefined k = Inl TypeError"
| "get_prop h Null k = Inl TypeError"
| "get_prop h (Ref a) k = Inr (lookup (cells h a) k)"
| "get_prop h (Fn a) k = Inr (lookup (cells h a) k)"
| "get_prop h (Bool b) k = Inr Undefined"
| "get_prop h (Num n) k = Inr Undefined"
| "get_prop h (Str s) k = Inr Undefined"

text \<open>
  Property write \<^verbatim>\<open>v[k] = w\<close>. On an object the property is replaced where it stands
  or appended. On a primitive the write is dropped silently in sloppy mode and throws in
  strict mode; \<open>strict\<close> says which mode the writing code runs in.
\<close>

fun set_prop :: "bool \<Rightarrow> heap \<Rightarrow> jsval \<Rightarrow> string \<Rightarrow> jsval \<Rightarrow> jserror + heap" where
  "set_prop strict h Undefined k w = Inl TypeError"
| "set_prop strict h Null k w = Inl TypeError"
| "set_prop strict h (Ref a) k w =
     Inr (h\<lparr>cells := (cells h)(a := AList.update k w (cells h a))\<rparr>)"
| "set_prop strict h (Fn a) k w =
     Inr (h\<lparr>cells := (cells h)(a := AList.update k w (cells h a))\<rparr>)"
| "set_prop strict h (Bool b) k w = (if strict then Inl TypeError else Inr h)"
| "set_prop strict h (Num n) k w = (if strict then Inl TypeError else Inr h)"
| "set_prop strict h (Str s) k w = (if strict then Inl TypeError else Inr h)"

text \<open>\<^verbatim>\<open>delete v[k]\<close> as \<^verbatim>\<open>pkit.js\<close> runs it (the file has no strict-mode directive).\<close>

fun delete_prop :: "heap \<Rightarrow> jsval \<Rightarrow> string \<Rightarrow> jserror + heap" where
  "delete_prop h Undefined k = Inl TypeError"
| "delete_prop h Null k = Inl TypeError"
| "delete_prop h (Ref a) k =
     Inr (h\<lparr>cells := (cells h)(a := AList.delete k (cells h a))\<rparr>)"
| "delete_prop h (Fn a) k =
     Inr (h\<lparr>cells := (cells h)(a := AList.delete k (cells h a))\<rparr>)"
| "delete_prop h (Bool b) k = Inr h"
| "delete_prop h (Num n) k = Inr h"
| "delete_prop h (Str s) k = Inr h"

definition new_object :: "obj \<Rightarrow> heap \<Rightarrow> jsval \<times> heap" where
  "new_object ps h =
     (Ref (fresh h), h\<lparr>cells := (cells h)(fresh h := ps), fresh := Suc (fresh h)\<rparr>)"

section \<open>The host: Node's url, util and JSON\<close>

text \<open>
  \<^verbatim>\<open>url.parse\<close>, \<^verbatim>\<open>JSON.stringify\<close>, \<^verbatim>\<open>JSON.parse\<close> and \<^verbatim>\<open>http.request\<close>
  belong to the runtime, not to this repository; they are parameters of the model.
  \<open>url_invalid\<close> is the exception \<^verbatim>\<open>url.parse\<close> throws for a string it refuses, if
  any. \<open>json_stringify\<close> reads the store and may throw (a cyclic value); \<open>json_parse\<close>
  returns the parsed value, of a type \<open>'j\<close> left open, or throws. \<open>http_request\<close> is the
  exception \<^verbatim>\<open>http.request\<close> throws at once for the options it is given, if any: it
  refuses, for one, every protocol but \<^verbatim>\<open>http:\<close>. \<open>strict_lib\<close> says whether the runtime's \<^verbatim>\<open>lib/util.js\<close>
  runs in strict mode (it does not in Node 0.10, the release line of this package's
  time; it does in later releases).
\<close>

record 'j host =
  url_invalid :: "string \<Rightarrow> jserror option"
  url_component :: "string \<Rightarrow> string \<Rightarrow> jsval"
  json_stringify :: "heap \<Rightarrow> jsval \<Rightarrow> jserror + jsval"
  json_parse :: "string \<Rightarrow> jserror + 'j"
  http_request :: "heap \<Rightarrow> jsval \<Rightarrow> jserror option"
  strict_lib :: bool

text \<open>
  \<^verbatim>\<open>url.parse(s)\<close> returns a new \<^verbatim>\<open>Url\<close> object whose own properties are exactly
  the twelve below; \<open>url_component env s k\<close> is the value the parser gives component
  \<open>k\<close>. A non-string argument makes \<^verbatim>\<open>url.parse\<close> throw a TypeError, and so may
  a string, as the host decides.
\<close>

definition url_keys :: "string list" where
  "url_keys = [''protocol'', ''slashes'', ''auth'', ''host'', ''port'', ''hostname'',
               ''hash'', ''search'', ''query'', ''pathname'', ''path'', ''href'']"

definition url_object :: "'j host \<Rightarrow> string \<Rightarrow> obj" where
  "url_object env s = map (\<lambda>k. (k, url_component env s k)) url_keys"

fun url_parse :: "'j host \<Rightarrow> heap \<Rightarrow> jsval \<Rightarrow> jserror + jsval \<times> heap" where
  "url_parse env h (Str s) =
     (case url_invalid env s of
        Some e \<Rightarrow> Inl e
      | None \<Rightarrow> Inr (new_object (url_object env s) h))"
| "url_parse env h v = Inl TypeError"

text \<open>
  \<^verbatim>\<open>
  exports._extend = function(origin, add) {
    if (!add || typeof add !== 'object') return origin;
    var keys = Object.keys(add);
    var i = keys.length;
    while (i--) {
      origin[keys[i]] = add[keys[i]];
    }
    return origin;
  };
  \<close>
  The loop runs over the keys from the last to the first and reads \<open>add\<close> from the
  store as it stands at each step.
\<close>

fun extend_loop :: "bool \<Rightarrow> heap \<Rightarrow> jsval \<Rightarrow> jsval \<Rightarrow> string list \<Rightarrow> jserror + heap" where
  "extend_loop strict h origin add [] = Inr h"
| "extend_loop strict h origin add (k # ks) =
     (case get_prop h add k of
        Inl e \<Rightarrow> Inl e
      | Inr w \<Rightarrow>
          (case set_prop strict h origin k w of
             Inl e \<Rightarrow> Inl e
           | Inr h' \<Rightarrow> extend_loop strict h' origin add ks))"

fun object_keys :: "heap \<Rightarrow> jsval \<Rightarrow> string list" where
  "object_keys h (Ref a) = map fst (cells h a)"
| "object_keys h (Fn a) = map fst (cells h a)"
| "object_keys h v = []"

definition util_extend :: "'j host \<Rightarrow> heap \<Rightarrow> jsval \<Rightarrow> jsval \<Rightarrow> jserror + heap" where
  "util_extend env h origin add =
     (if \<not> truthy add then Inr h
      else if typeof add \<noteq> ''object'' then Inr h
      else extend_loop (strict_lib env) h origin add (rev (object_keys h add)))"

section \<open>The promise and what a call returns\<close>

type_synonym headers = "(string \<times> string) list"

datatype 'j body = Text string | Json 'j

datatype 'j response =
  Response (statusCode: int) (headers: headers) (body: "'j body")

text \<open>
  A rejection value is either a bare string (\<^verbatim>\<open>when.reject('Missing URL')\<close>) or an
  error object, which may carry the \<^verbatim>\<open>response\<close> property that the completion
  handler attaches to a parse error.
\<close>

datatype 'j rejection =
    Literal string
  | Failure jserror "'j response option"

datatype 'j promise =
    Pending
  | Fulfilled "'j response"
  | Rejected "'j rejection"

text \<open>A deferred of \<^verbatim>\<open>when\<close> settles once; later calls change nothing.\<close>

fun resolve :: "'j promise \<Rightarrow> 'j response \<Rightarrow> 'j promise" where
  "resolve Pending r = Fulfilled r"
| "resolve p r = p"

fun reject :: "'j promise \<Rightarrow> 'j rejection \<Rightarrow> 'j promise" where
  "reject Pending e = Rejected e"
| "reject p e = p"

definition when_reject :: "'j rejection \<Rightarrow> 'j promise" where
  "when_reject e = Rejected e"

text \<open>
  \<open>sent\<close> records the one use of the network: the value given to \<^verbatim>\<open>http.request\<close>
  and the value given to \<^verbatim>\<open>.end\<close>. It is \<open>None\<close> when the call never reaches
  \<^verbatim>\<open>http.request\<close>.
\<close>

record issued =
  req_options :: jsval
  req_payload :: jsval

record 'j call =
  promise :: "'j promise"
  sent :: "issued option"

section \<open>pRequest, lines 48 to 106\<close>

text \<open>
  Lines 52 to 59. \<open>Inr None\<close> is the last branch, which returns the rejected promise at
  once; \<open>Inr (Some (h', requestOptions))\<close> goes on to line 61. The empty object of line 50
  is overwritten in both other branches before anything reads it and is left out.
\<close>

definition normalize :: "'j host \<Rightarrow> heap \<Rightarrow> jsval \<Rightarrow> jserror + (heap \<times> jsval) option" where
  "normalize env h options =
     (if typeof options = ''object'' then
        (case get_prop h options ''url'' of
           Inl e \<Rightarrow> Inl e
         | Inr u \<Rightarrow>
             (case (if typeof u = ''string'' then url_parse env h u else Inr (u, h)) of
                Inl e \<Rightarrow> Inl e
              | Inr (requestOptions, h1) \<Rightarrow>
                  (case util_extend env h1 requestOptions options of
                     Inl e \<Rightarrow> Inl e
                   | Inr h2 \<Rightarrow> Inr (Some (h2, requestOptions)))))
      else if typeof options = ''string'' then
        (case url_parse env h options of
           Inl e \<Rightarrow> Inl e
         | Inr (requestOptions, h1) \<Rightarrow> Inr (Some (h1, requestOptions)))
      else Inr None)"

text \<open>Lines 61 to 68, in the sloppy mode of \<^verbatim>\<open>pkit.js\<close>.\<close>

definition set_json_headers :: "heap \<Rightarrow> jsval \<Rightarrow> jserror + heap" where
  "set_json_headers h requestOptions =
     (case get_prop h requestOptions ''headers'' of
        Inl e \<Rightarrow> Inl e
      | Inr hv \<Rightarrow>
          (case (if truthy hv then (hv, h) else new_object [] h) of
             (hv', h1) \<Rightarrow>
               (case set_prop False h1 requestOptions ''headers'' hv' of
                  Inl e \<Rightarrow> Inl e
                | Inr h2 \<Rightarrow>
                    (case get_prop h2 requestOptions ''headers'' of
                       Inl e \<Rightarrow> Inl e
                     | Inr t1 \<Rightarrow>
                         (case set_prop False h2 t1 ''Content-Type'' (Str ''application/json'') of
                            Inl e \<Rightarrow> Inl e
                          | Inr h3 \<Rightarrow>
                              (case get_prop h3 requestOptions ''headers'' of
                                 Inl e \<Rightarrow> Inl e
                               | Inr t2 \<Rightarrow>
                                   set_prop False h3 t2 ''Accept'' (Str ''application/json'')))))))"

definition body_handling :: "'j host \<Rightarrow> heap \<Rightarrow> jsval \<Rightarrow> jserror + heap" where
  "body_handling env h requestOptions =
     (case get_prop h requestOptions ''body'' of
        Inl e \<Rightarrow> Inl e
      | Inr b \<Rightarrow>
          if typeof b = ''object'' then
            (case json_stringify env h b of
               Inl e \<Rightarrow> Inl e
             | Inr s \<Rightarrow>
                 (case set_prop False h requestOptions ''body'' s of
                    Inl e \<Rightarrow> Inl e
                  | Inr h1 \<Rightarrow> set_json_headers h1 requestOptions))
          else if typeof b \<noteq> ''string'' then delete_prop h requestOptions ''body''
          else Inr h)"

text \<open>
  Lines 70 to 105. \<^verbatim>\<open>http.request(requestOptions)\<close> is called outside any
  \<^verbatim>\<open>try\<close>: when it throws, \<^verbatim>\<open>pRequest\<close> throws, nothing is sent and no promise
  is returned. Otherwise the listeners are registered (section below), \<^verbatim>\<open>.end\<close>
  receives \<^verbatim>\<open>requestOptions.body\<close>, and the pending promise is returned.
\<close>

definition send :: "'j host \<Rightarrow> heap \<Rightarrow> jsval \<Rightarrow> jserror + heap \<times> 'j call" where
  "send env h requestOptions =
     (case body_handling env h requestOptions of
        Inl e \<Rightarrow> Inl e
      | Inr h1 \<Rightarrow>
          (case http_request env h1 requestOptions of
             Some e \<Rightarrow> Inl e
           | None \<Rightarrow>
               (case get_prop h1 requestOptions ''body'' of
                  Inl e \<Rightarrow> Inl e
                | Inr payload \<Rightarrow>
                    Inr (h1, \<lparr>promise = Pending,
                              sent = Some \<lparr>req_options = requestOptions,
                                           req_payload = payload\<rparr>\<rparr>))))"

definition pRequest :: "'j host \<Rightarrow> heap \<Rightarrow> jsval \<Rightarrow> jserror + heap \<times> 'j call" where
  "pRequest env h options =
     (case normalize env h options of
        Inl e \<Rightarrow> Inl e
      | Inr None \<Rightarrow> Inr (h, \<lparr>promise = when_reject (Literal ''Missing URL''), sent = None\<rparr>)
      | Inr (Some (h1, requestOptions)) \<Rightarrow> send env h1 requestOptions)"

text \<open>
  How \<^verbatim>\<open>http.ClientRequest\<close> reads the method:
  \<^verbatim>\<open>(options.method || 'GET').toUpperCase()\<close>.
\<close>

definition to_upper :: "char \<Rightarrow> char" where
  "to_upper c =
     (case map_of (zip ''abcdefghijklmnopqrstuvwxyz'' ''ABCDEFGHIJKLMNOPQRSTUVWXYZ'') c of
        None \<Rightarrow> c
      | Some u \<Rightarrow> u)"

definition request_method :: "heap \<Rightarrow> jsval \<Rightarrow> jserror + string" where
  "request_method h requestOptions =
     (case get_prop h requestOptions ''method'' of
        Inl e \<Rightarrow> Inl e
      | Inr m \<Rightarrow>
          (if \<not> truthy m then Inr (map to_upper ''GET'')
           else (case m of Str s \<Rightarrow> Inr (map to_upper s) | _ \<Rightarrow> Inl TypeError)))"

section \<open>The listeners, lines 71 to 102\<close>

text \<open>
  The events the runtime may deliver: \<^verbatim>\<open>error\<close> on the request, \<^verbatim>\<open>response\<close>
  with the status code and headers of the incoming message, and \<^verbatim>\<open>data\<close>,
  \<^verbatim>\<open>end\<close>, \<^verbatim>\<open>close\<close> on that message.
\<close>

datatype event =
    ReqError jserror
  | ResResponse int headers
  | ResData string
  | ResEnd
  | ResClose

text \<open>
  The state the closures share: the deferred, the response whose listeners are
  registered (none before \<^verbatim>\<open>response\<close> fires), its \<^verbatim>\<open>buf\<close>, and the exception, if
  any, that a listener threw and nobody caught.
\<close>

record 'j exchange =
  deferred :: "'j promise"
  incoming :: "(int \<times> headers) option"
  buf :: string
  uncaught :: "jserror option"

definition awaiting :: "'j exchange" where
  "awaiting = \<lparr>deferred = Pending, incoming = None, buf = [], uncaught = None\<rparr>"

text \<open>
  The \<^verbatim>\<open>end\<close> listener, lines 84 to 101. \<^verbatim>\<open>response.headers['content-type']\<close> is
  \<^verbatim>\<open>undefined\<close> when the header is missing, and \<^verbatim>\<open>.slice\<close> on it throws, out of
  the listener. After a failed parse the listener rejects and then still calls
  \<^verbatim>\<open>deferred.resolve\<close>, with the raw text as body.
\<close>

definition on_end ::
  "'j host \<Rightarrow> int \<Rightarrow> headers \<Rightarrow> string \<Rightarrow> 'j promise \<Rightarrow> jserror + 'j promise" where
  "on_end env sc hs text d =
     (case map_of hs ''content-type'' of
        None \<Rightarrow> Inl TypeError
      | Some ct \<Rightarrow>
          if take 16 ct = ''application/json'' then
            (case json_parse env text of
               Inr v \<Rightarrow> Inr (resolve d (Response sc hs (Json v)))
             | Inl e \<Rightarrow>
                 Inr (resolve (reject d (Failure e (Some (Response sc hs (Text text)))))
                        (Response sc hs (Text text))))
          else Inr (resolve d (Response sc hs (Text text))))"

definition on_event :: "'j host \<Rightarrow> event \<Rightarrow> 'j exchange \<Rightarrow> 'j exchange" where
  "on_event env ev x =
     (if uncaught x \<noteq> None then x
      else
        (case ev of
           ReqError err \<Rightarrow> x\<lparr>deferred := reject (deferred x) (Failure err None)\<rparr>
         | ResResponse sc hs \<Rightarrow> x\<lparr>incoming := Some (sc, hs), buf := []\<rparr>
         | ResData chunk \<Rightarrow>
             (case incoming x of
                None \<Rightarrow> x
              | Some r \<Rightarrow> x\<lparr>buf := buf x @ chunk\<rparr>)
         | ResEnd \<Rightarrow>
             (case incoming x of
                None \<Rightarrow> x
              | Some (sc, hs) \<Rightarrow>
                  (case on_end env sc hs (buf x) (deferred x) of
                     Inl e \<Rightarrow> x\<lparr>uncaught := Some e\<rparr>
                   | Inr d \<Rightarrow> x\<lparr>deferred := d\<rparr>))
         | ResClose \<Rightarrow>
             (case incoming x of
                None \<Rightarrow> x
              | Some r \<Rightarrow>
                  x\<lparr>deferred :=
                      reject (deferred x) (Failure (ErrorObj ''Connection closed.'') None)\<rparr>)))"

fun run :: "'j host \<Rightarrow> event list \<Rightarrow> 'j exchange \<Rightarrow> 'j exchange" where
  "run env [] x = x"
| "run env (ev # evs) x = run env evs (on_event env ev x)"

fun is_object :: "jsval \<Rightarrow> bool" where
  "is_object (Ref a) = True"
| "is_object (Fn a) = True"
| "is_object v = False"

section \<open>A sample host\<close>

text \<open>
  The theorems below hold for every host. To evaluate the model on examples, a host is
  fixed whose functions are tables over the values the examples use: the parse of
  \<^verbatim>\<open>http://example.com/\<close> and of \<^verbatim>\<open>https://example.com/\<close>, the serialisation
  of \<^verbatim>\<open>null\<close> and of the empty object, and three JSON texts; \<open>sample_parse\<close>
  refuses every other text, as \<^verbatim>\<open>JSON.parse\<close> refuses \<^verbatim>\<open>{bad\<close>. Its
  \<^verbatim>\<open>url.parse\<close> refuses no string, and its \<^verbatim>\<open>http.request\<close> makes the check of
  Node's:
  \<^verbatim>\<open>if (options.protocol && options.protocol !== 'http:') throw new Error(...)\<close>.
\<close>

datatype json = JNull | JBool bool | JNum int | JStr string | JObj "(string \<times> json) list"

definition sample_parse :: "string \<Rightarrow> jserror + json" where
  \<open>sample_parse text =
     (if text = ''null'' then Inr JNull
      else if text = ''true'' then Inr (JBool True)
      else if text = ''{"a":1}'' then Inr (JObj [(''a'', JNum 1)])
      else Inl (SyntaxError ''Unexpected token''))\<close>

fun sample_stringify :: "heap \<Rightarrow> jsval \<Rightarrow> jserror + jsval" where
  "sample_stringify h Null = Inr (Str ''null'')"
| "sample_stringify h (Ref a) = (if cells h a = [] then Inr (Str ''{}'') else Inl TypeError)"
| "sample_stringify h v = Inl TypeError"

definition sample_component :: "string \<Rightarrow> string \<Rightarrow> jsval" where
  "sample_component u k =
     (if k = ''href'' then Str u
      else if u = ''http://example.com/'' \<or> u = ''https://example.com/'' then
        (if k = ''protocol'' then Str (if u = ''http://example.com/'' then ''http:'' else ''https:'')
         else if k = ''slashes'' then Bool True
         else if k = ''host'' then Str ''example.com''
         else if k = ''hostname'' then Str ''example.com''
         else if k = ''pathname'' then Str ''/''
         else if k = ''path'' then Str ''/''
         else Null)
      else Null)"

definition sample_request :: "heap \<Rightarrow> jsval \<Rightarrow> jserror option" where
  "sample_request h requestOptions =
     (case get_prop h requestOptions ''protocol'' of
        Inl e \<Rightarrow> Some e
      | Inr p \<Rightarrow>
          (if truthy p then
             (if p = Str ''http:'' then None else Some (ErrorObj ''Protocol not supported.''))
           else None))"

definition sample_host :: "json host" where
  "sample_host =
     \<lparr>url_invalid = (\<lambda>s. None), url_component = sample_component,
      json_stringify = sample_stringify, json_parse = sample_parse,
      http_request = sample_request, strict_lib = False\<rparr>"

text \<open>
  What the caller observes of a call: the handle it gets back (none when the call threw)
  and a request header as \<^verbatim>\<open>http.request\<close> finds it on the options it was given.
\<close>

definition returned :: "jserror + heap \<times> 'j call \<Rightarrow> 'j call option" where
  "returned r = (case r of Inl e \<Rightarrow> None | Inr (h, c) \<Rightarrow> Some c)"

definition request_header :: "jserror + heap \<times> 'j call \<Rightarrow> string \<Rightarrow> jsval option" where
  "request_header r k =
     (case r of
        Inl e \<Rightarrow> None
      | Inr (h, c) \<Rightarrow>
          (case sent c of
             None \<Rightarrow> None
           | Some i \<Rightarrow>
               (case get_prop h (req_options i) ''headers'' of
                  Inl e \<Rightarrow> None
                | Inr hv \<Rightarrow> (case get_prop h hv k of Inl e \<Rightarrow> None | Inr v \<Rightarrow> Some v))))"

text \<open>
  A caller's store for the examples: the options object at address 0 names a pre-parsed
  target (address 1), an empty object as body (address 2) and a headers object
  (address 3).
\<close>

definition caller_heap :: heap where
  "caller_heap =
     \<lparr>cells = (\<lambda>a. [])
        (0 := [(''url'', Ref 1), (''method'', Str ''POST''), (''body'', Ref 2),
               (''headers'', Ref 3)],
         1 := [(''host'', Str ''example.com''), (''path'', Str ''/'')],
         3 := [(''X-Token'', Str ''abc'')]),
      fresh = 4\<rparr>"

section \<open>The response side\<close>

lemma run_append: "run env (xs @ ys) x = run env ys (run env xs x)"
  by (induction xs arbitrary: x) simp_all

lemma run_data:
  "uncaught x = None \<Longrightarrow> incoming x = Some r \<Longrightarrow>
   run env (map ResData chunks) x = x\<lparr>buf := buf x @ concat chunks\<rparr>"
  by (induction chunks arbitrary: x) (simp_all add: on_event_def)

lemma on_event_settled:
  "deferred x \<noteq> Pending \<Longrightarrow> deferred (on_event env ev x) = deferred x"
  by (cases "deferred x")
     (auto simp: on_event_def on_end_def split: event.splits option.splits sum.splits if_splits)

lemma run_settled:
  "deferred x \<noteq> Pending \<Longrightarrow> deferred (run env evs x) = deferred x"
  by (induction evs arbitrary: x) (simp_all add: on_event_settled)

text \<open>
  After \<^verbatim>\<open>response\<close> and any number of \<^verbatim>\<open>data\<close> events the promise is still
  pending and \<open>buf\<close> holds the chunks in the order they came.
\<close>

lemma run_until:
  "run env (ResResponse sc hs # map ResData chunks @ ev # rest) awaiting =
   run env rest (on_event env ev
     \<lparr>deferred = Pending, incoming = Some (sc, hs), buf = concat chunks, uncaught = None\<rparr>)"
proof -
  let ?x = "\<lparr>deferred = Pending, incoming = Some (sc, hs), buf = [], uncaught = None\<rparr>
            :: 'a exchange"
  have "on_event env (ResResponse sc hs) awaiting = ?x"
    by (simp add: on_event_def awaiting_def)
  moreover have "run env (map ResData chunks) ?x = ?x\<lparr>buf := buf ?x @ concat chunks\<rparr>"
    by (rule run_data) simp_all
  ultimately show ?thesis
    by (simp add: run_append)
qed

text \<open>
  Claim C1. A response whose \<^verbatim>\<open>content-type\<close> header starts with the sixteen
  characters \<^verbatim>\<open>application/json\<close> and whose chunks, concatenated, parse as JSON
  resolves the promise with the response's status code and headers and the parsed value
  as body; nothing that happens afterwards changes that.
\<close>

theorem json_response_resolves_parsed:
  assumes "map_of hs ''content-type'' = Some ct"
    and "take 16 ct = ''application/json''"
    and "json_parse env (concat chunks) = Inr v"
  shows "deferred (run env (ResResponse sc hs # map ResData chunks @ ResEnd # rest) awaiting)
         = Fulfilled (Response sc hs (Json v))"
proof -
  have "deferred (on_event env ResEnd
          \<lparr>deferred = Pending, incoming = Some (sc, hs), buf = concat chunks, uncaught = None\<rparr>)
        = Fulfilled (Response sc hs (Json v))"
    using assms by (simp add: on_event_def on_end_def)
  then show ?thesis
    unfolding run_until by (simp add: run_settled)
qed

theorem json_response_resolves_parsed_witness:
  \<open>map_of [(''content-type'', ''application/json; charset=utf-8'')] ''content-type''
     = Some ''application/json; charset=utf-8''
   \<and> take 16 ''application/json; charset=utf-8'' = ''application/json''
   \<and> json_parse sample_host (concat [''{"a"'', '':1}'']) = Inr (JObj [(''a'', JNum 1)])
   \<and> deferred (run sample_host
        (ResResponse 200 [(''content-type'', ''application/json; charset=utf-8'')]
           # map ResData [''{"a"'', '':1}''] @ ResEnd # []) awaiting)
      = Fulfilled (Response 200 [(''content-type'', ''application/json; charset=utf-8'')]
          (Json (JObj [(''a'', JNum 1)])))\<close>
proof -
  have a: "map_of [(''content-type'', ''application/json; charset=utf-8'')] ''content-type''
     = Some ''application/json; charset=utf-8''" by simp
  have b: "take 16 ''application/json; charset=utf-8'' = ''application/json''" by simp
  have c: \<open>json_parse sample_host (concat [''{"a"'', '':1}'']) = Inr (JObj [(''a'', JNum 1)])\<close>
    by (simp add: sample_host_def sample_parse_def)
  from a b c json_response_resolves_parsed [OF a b c, of 200 "[]"] show ?thesis by blast
qed

text \<open>
  Claim C2. When the header announces JSON and the accumulated text does not parse, the
  promise is rejected with the error \<^verbatim>\<open>JSON.parse\<close> threw, carrying the response
  (status code, headers, the raw text as body). The call to \<^verbatim>\<open>deferred.resolve\<close> that
  follows finds the promise settled, so it is never fulfilled, whatever comes later.
\<close>

theorem json_parse_failure_rejects:
  assumes "map_of hs ''content-type'' = Some ct"
    and "take 16 ct = ''application/json''"
    and "json_parse env (concat chunks) = Inl e"
  shows "deferred (run env (ResResponse sc hs # map ResData chunks @ ResEnd # rest) awaiting)
         = Rejected (Failure e (Some (Response sc hs (Text (concat chunks)))))"
proof -
  have "deferred (on_event env ResEnd
          \<lparr>deferred = Pending, incoming = Some (sc, hs), buf = concat chunks, uncaught = None\<rparr>)
        = Rejected (Failure e (Some (Response sc hs (Text (concat chunks)))))"
    using assms by (simp add: on_event_def on_end_def)
  then show ?thesis
    unfolding run_until by (simp add: run_settled)
qed

theorem json_parse_failure_rejects_witness:
  "map_of [(''content-type'', ''application/json'')] ''content-type'' = Some ''application/json''
   \<and> take 16 ''application/json'' = ''application/json''
   \<and> json_parse sample_host (concat [''{b'', ''ad'']) = Inl (SyntaxError ''Unexpected token'')
   \<and> deferred (run sample_host
        (ResResponse 200 [(''content-type'', ''application/json'')]
           # map ResData [''{b'', ''ad''] @ ResEnd # [ResClose]) awaiting)
      = Rejected (Failure (SyntaxError ''Unexpected token'')
          (Some (Response 200 [(''content-type'', ''application/json'')] (Text ''{bad''))))"
proof -
  have a: "map_of [(''content-type'', ''application/json'')] ''content-type''
     = Some ''application/json''" by simp
  have b: "take 16 ''application/json'' = ''application/json''" by simp
  have c: "json_parse sample_host (concat [''{b'', ''ad''])
     = Inl (SyntaxError ''Unexpected token'')"
    by (simp add: sample_host_def sample_parse_def)
  from a b c json_parse_failure_rejects [OF a b c, of 200 "[ResClose]"] show ?thesis by simp
qed

text \<open>
  Claim C7. When \<^verbatim>\<open>close\<close> fires on the response before \<^verbatim>\<open>end\<close>, the promise is
  rejected with \<^verbatim>\<open>new Error('Connection closed.')\<close>, however many chunks have been
  buffered; the rejection carries none of the buffer, and no later event, an \<^verbatim>\<open>end\<close>
  included, delivers it.
\<close>

theorem close_before_end_rejects:
  "deferred (run env (ResResponse sc hs # map ResData chunks @ ResClose # rest) awaiting)
   = Rejected (Failure (ErrorObj ''Connection closed.'') None)"
proof -
  have "deferred (on_event env ResClose
          \<lparr>deferred = Pending, incoming = Some (sc, hs), buf = concat chunks, uncaught = None\<rparr>)
        = Rejected (Failure (ErrorObj ''Connection closed.'') None)"
    by (simp add: on_event_def)
  then show ?thesis
    unfolding run_until by (simp add: run_settled)
qed

text \<open>
  Claim C3. The claim says that every kind of error, a response without any
  \<^verbatim>\<open>content-type\<close> header included, reaches the caller as a rejection of the
  promise. The transport error, the early close and the parse failure do (each listener
  calls \<^verbatim>\<open>deferred.reject\<close>), but line 87 reads \<^verbatim>\<open>.slice\<close> of the missing header
  outside any \<^verbatim>\<open>try\<close>: the \<^verbatim>\<open>end\<close> listener throws, nobody catches the
  TypeError, and the promise is neither rejected nor resolved.
\<close>

theorem missing_content_type_leaves_promise_pending:
  "deferred (run sample_host [ResResponse 200 [], ResData ''hello'', ResEnd] awaiting) = Pending
   \<and> uncaught (run sample_host [ResResponse 200 [], ResData ''hello'', ResEnd] awaiting)
       = Some TypeError"
  by (simp add: on_event_def on_end_def awaiting_def)

section \<open>The request side\<close>

lemma lookup_update:
  "lookup (AList.update k v ps) k' = (if k' = k then v else lookup ps k')"
  by (simp add: lookup_def update_conv')

lemma lookup_delete:
  "lookup (AList.delete k ps) k' = (if k' = k then Undefined else lookup ps k')"
  by (simp add: lookup_def delete_conv')

lemma lookup_Nil: "lookup [] k = Undefined"
  by (simp add: lookup_def)

lemmas pRequest_defs =
  pRequest_def normalize_def util_extend_def send_def body_handling_def
  set_json_headers_def new_object_def

text \<open>
  An input whose \<^verbatim>\<open>typeof\<close> is neither \<^verbatim>\<open>object\<close> nor \<^verbatim>\<open>string\<close> (a number,
  a boolean, \<^verbatim>\<open>undefined\<close>, a function) gets the promise already rejected with the
  string \<^verbatim>\<open>Missing URL\<close>; nothing is sent and the store is untouched.
\<close>

lemma invalid_input_rejected:
  "typeof options \<noteq> ''object'' \<Longrightarrow> typeof options \<noteq> ''string'' \<Longrightarrow>
   pRequest env h options
     = Inr (h, \<lparr>promise = Rejected (Literal ''Missing URL''), sent = None\<rparr>)"
  by (simp add: pRequest_def normalize_def when_reject_def)

text \<open>
  Claim C4. The claim says that every input that is neither a string nor an object,
  \<^verbatim>\<open>null\<close> by name, gets the promise rejected with \<^verbatim>\<open>Missing URL\<close>. But
  \<^verbatim>\<open>typeof null\<close> is \<^verbatim>\<open>'object'\<close>, so \<^verbatim>\<open>null\<close> takes the first branch of line
  52, and reading \<^verbatim>\<open>options.url\<close> on line 53 throws a TypeError to the caller: no
  promise is returned.
\<close>

theorem null_options_throws: "pRequest env h Null = Inl TypeError"
  by (simp add: pRequest_def normalize_def)

text \<open>
  Claim C5. The claim says that a body that is absent, \<^verbatim>\<open>null\<close>, a number or a
  boolean is removed and nothing is transmitted. For \<^verbatim>\<open>null\<close> the test of line 61,
  \<^verbatim>\<open>typeof requestOptions.body === 'object'\<close>, holds: the body is replaced by the
  text \<^verbatim>\<open>null\<close>, the JSON headers are set, and that text is what \<^verbatim>\<open>.end\<close> sends.
\<close>

theorem null_body_is_serialised:
  "returned (pRequest sample_host
      \<lparr>cells = (\<lambda>a. [])(0 := [(''url'', Str ''http://example.com/''), (''body'', Null)]),
       fresh = 1\<rparr> (Ref 0))
   = Some \<lparr>promise = Pending,
           sent = Some \<lparr>req_options = Ref 1, req_payload = Str ''null''\<rparr>\<rparr>
   \<and> request_header (pRequest sample_host
      \<lparr>cells = (\<lambda>a. [])(0 := [(''url'', Str ''http://example.com/''), (''body'', Null)]),
       fresh = 1\<rparr> (Ref 0)) ''Content-Type'' = Some (Str ''application/json'')"
  by (simp add: returned_def request_header_def pRequest_defs sample_host_def
      sample_request_def sample_component_def lookup_def url_object_def url_keys_def)

text \<open>
  Claim C8, amended. For a string \<open>u\<close> that \<^verbatim>\<open>url.parse\<close> parses and whose parsed
  target \<^verbatim>\<open>http.request\<close> accepts, the options given to \<^verbatim>\<open>http.request\<close> are
  the fresh object \<^verbatim>\<open>url.parse(u)\<close> returned, holding the parsed components and
  nothing else: no \<^verbatim>\<open>method\<close>, so the request is a GET, no \<^verbatim>\<open>headers\<close>, and
  \<^verbatim>\<open>.end\<close> receives \<^verbatim>\<open>undefined\<close>, so no body is written.
\<close>

theorem string_input_issues_get:
  assumes "url_invalid env u = None"
    and "http_request env (snd (new_object (url_object env u) h)) (Ref (fresh h)) = None"
  shows "pRequest env h (Str u) =
     Inr (snd (new_object (url_object env u) h),
          \<lparr>promise = Pending,
           sent = Some \<lparr>req_options = Ref (fresh h), req_payload = Undefined\<rparr>\<rparr>)
   \<and> cells (snd (new_object (url_object env u) h)) (fresh h)
       = map (\<lambda>k. (k, url_component env u k)) url_keys
   \<and> request_method (snd (new_object (url_object env u) h)) (Ref (fresh h)) = Inr ''GET''
   \<and> get_prop (snd (new_object (url_object env u) h)) (Ref (fresh h)) ''headers''
       = Inr Undefined"
proof -
  let ?h1 = "snd (new_object (url_object env u) h)"
  have n: "normalize env h (Str u) = Inr (Some (?h1, Ref (fresh h)))"
    using assms(1) by (simp add: normalize_def new_object_def)
  have c: "cells ?h1 (fresh h) = url_object env u"
    by (simp add: new_object_def)
  have b: "lookup (url_object env u) ''body'' = Undefined"
    by (simp add: lookup_def url_object_def url_keys_def)
  have d: "AList.delete ''body'' (url_object env u) = url_object env u"
    by (simp add: url_object_def url_keys_def)
  have bh: "body_handling env ?h1 (Ref (fresh h)) = Inr ?h1"
    using c b d by (simp add: body_handling_def new_object_def)
  have "send env ?h1 (Ref (fresh h)) =
      Inr (?h1, \<lparr>promise = Pending,
                 sent = Some \<lparr>req_options = Ref (fresh h), req_payload = Undefined\<rparr>\<rparr>)"
    using bh assms(2) c b by (simp add: send_def)
  with n have "pRequest env h (Str u) =
      Inr (?h1, \<lparr>promise = Pending,
                 sent = Some \<lparr>req_options = Ref (fresh h), req_payload = Undefined\<rparr>\<rparr>)"
    by (simp add: pRequest_def)
  moreover have "cells ?h1 (fresh h) = map (\<lambda>k. (k, url_component env u k)) url_keys"
    using c by (simp add: url_object_def)
  moreover have "request_method ?h1 (Ref (fresh h)) = Inr ''GET''"
    using c by (simp add: request_method_def to_upper_def lookup_def url_object_def url_keys_def)
  moreover have "get_prop ?h1 (Ref (fresh h)) ''headers'' = Inr Undefined"
    using c by (simp add: lookup_def url_object_def url_keys_def)
  ultimately show ?thesis
    by blast
qed

theorem string_input_issues_get_witness:
  "returned (pRequest sample_host \<lparr>cells = (\<lambda>a. []), fresh = 0\<rparr> (Str ''http://example.com/''))
     = Some \<lparr>promise = Pending,
             sent = Some \<lparr>req_options = Ref 0, req_payload = Undefined\<rparr>\<rparr>
   \<and> request_method
        (snd (new_object (url_object sample_host ''http://example.com/'')
           \<lparr>cells = (\<lambda>a. []), fresh = 0\<rparr>)) (Ref 0) = Inr ''GET''"
proof -
  let ?h = "\<lparr>cells = (\<lambda>a. []), fresh = 0\<rparr>"
  have a: "url_invalid sample_host ''http://example.com/'' = None"
    by (simp add: sample_host_def)
  have b: "http_request sample_host
      (snd (new_object (url_object sample_host ''http://example.com/'') ?h)) (Ref (fresh ?h))
      = None"
    by (simp add: sample_host_def sample_request_def sample_component_def new_object_def
        lookup_def url_object_def url_keys_def)
  from string_input_issues_get [OF a b] show ?thesis
    by (simp add: returned_def)
qed

text \<open>
  Claim C8 as stated, for every string, fails: line 70 calls \<^verbatim>\<open>http.request\<close>
  unguarded, and for \<^verbatim>\<open>https://example.com/\<close> that call throws. The exception
  leaves \<^verbatim>\<open>pRequest\<close>; no request is issued and no promise is returned.
\<close>

theorem https_string_throws:
  "pRequest sample_host \<lparr>cells = (\<lambda>a. []), fresh = 0\<rparr> (Str ''https://example.com/'')
   = Inl (ErrorObj ''Protocol not supported.'')"
  by (simp add: pRequest_defs sample_host_def sample_request_def sample_component_def
      lookup_def url_object_def url_keys_def)

lemma extend_loop_Ref:
  "\<exists>h'. extend_loop strict h (Ref t) (Ref o') ks = Inr h'
      \<and> fresh h' = fresh h
      \<and> (\<forall>a. a \<noteq> t \<longrightarrow> cells h' a = cells h a)
      \<and> (\<forall>k. lookup (cells h' t) k =
               (if k \<in> set ks then lookup (cells h o') k else lookup (cells h t) k))"
proof (induction ks arbitrary: h)
  case Nil
  show ?case by simp
next
  case (Cons k ks)
  let ?h1 = "h\<lparr>cells := (cells h)(t := AList.update k (lookup (cells h o') k) (cells h t))\<rparr>"
  from Cons.IH [of ?h1] obtain h' where
    run: "extend_loop strict ?h1 (Ref t) (Ref o') ks = Inr h'"
    and fr: "fresh h' = fresh ?h1"
    and oth: "\<forall>a. a \<noteq> t \<longrightarrow> cells h' a = cells ?h1 a"
    and tgt: "\<forall>k'. lookup (cells h' t) k' =
               (if k' \<in> set ks then lookup (cells ?h1 o') k' else lookup (cells ?h1 t) k')"
    by blast
  have src: "lookup (cells ?h1 o') k' = lookup (cells h o') k'" for k'
    by (simp add: lookup_update)
  have "extend_loop strict h (Ref t) (Ref o') (k # ks) = Inr h'"
    using run by simp
  moreover have "fresh h' = fresh h"
    using fr by simp
  moreover have "\<forall>a. a \<noteq> t \<longrightarrow> cells h' a = cells h a"
    using oth by simp
  moreover have "\<forall>k'. lookup (cells h' t) k' =
      (if k' \<in> set (k # ks) then lookup (cells h o') k' else lookup (cells h t) k')"
    using tgt src by (simp add: lookup_update)
  ultimately show ?case by blast
qed

lemma normalize_object_url:
  assumes "get_prop h (Ref o') ''url'' = Inr (Ref t)"
  shows "\<exists>h1. normalize env h (Ref o') = Inr (Some (h1, Ref t))
      \<and> fresh h1 = fresh h
      \<and> (\<forall>a. a \<noteq> t \<longrightarrow> cells h1 a = cells h a)
      \<and> (\<forall>k. lookup (cells h1 t) k =
               (if k \<in> fst ` set (cells h o') then lookup (cells h o') k
                else lookup (cells h t) k))"
proof -
  from extend_loop_Ref [of "strict_lib env" h t o' "rev (map fst (cells h o'))"]
  obtain h1 where
    "extend_loop (strict_lib env) h (Ref t) (Ref o') (rev (map fst (cells h o'))) = Inr h1"
    and "fresh h1 = fresh h"
    and "\<forall>a. a \<noteq> t \<longrightarrow> cells h1 a = cells h a"
    and "\<forall>k. lookup (cells h1 t) k =
               (if k \<in> set (rev (map fst (cells h o'))) then lookup (cells h o') k
                else lookup (cells h t) k)"
    by blast
  moreover from this(1) assms have "normalize env h (Ref o') = Inr (Some (h1, Ref t))"
    by (simp add: normalize_def util_extend_def)
  ultimately show ?thesis by auto
qed

lemma set_json_headers_present:
  assumes "lookup (cells h t) ''headers'' = hv" and "truthy hv"
  shows "\<exists>h'. set_json_headers h (Ref t) = Inr h'
     \<and> lookup (cells h' t) ''headers'' = hv
     \<and> (\<forall>k. k \<noteq> ''Content-Type'' \<and> k \<noteq> ''Accept'' \<longrightarrow>
            lookup (cells h' t) k = lookup (cells h t) k)
     \<and> (is_object hv \<longrightarrow>
            get_prop h' hv ''Content-Type'' = Inr (Str ''application/json'')
          \<and> get_prop h' hv ''Accept'' = Inr (Str ''application/json''))"
  using assms
  by (cases hv) (auto simp: set_json_headers_def lookup_update)

lemma set_json_headers_absent:
  assumes "t < fresh h" and "\<not> truthy (lookup (cells h t) ''headers'')"
  shows "\<exists>h'. set_json_headers h (Ref t) = Inr h'
     \<and> lookup (cells h' t) ''headers'' = Ref (fresh h)
     \<and> (\<forall>k. k \<noteq> ''headers'' \<longrightarrow> lookup (cells h' t) k = lookup (cells h t) k)
     \<and> cells h' (fresh h) =
          [(''Content-Type'', Str ''application/json''), (''Accept'', Str ''application/json'')]"
  using assms
  by (auto simp: set_json_headers_def new_object_def lookup_update)

text \<open>Lines 61 to 65 on an object whose body is an object.\<close>

lemma body_handling_json:
  assumes "t < fresh h"
    and "typeof (lookup (cells h t) ''body'') = ''object''"
    and "json_stringify env h (lookup (cells h t) ''body'') = Inr s"
  shows "\<exists>h'. body_handling env h (Ref t) = Inr h'
     \<and> lookup (cells h' t) ''body'' = s
     \<and> (\<forall>k. k \<noteq> ''body'' \<and> k \<noteq> ''headers'' \<and> k \<noteq> ''Content-Type'' \<and> k \<noteq> ''Accept'' \<longrightarrow>
            lookup (cells h' t) k = lookup (cells h t) k)
     \<and> (if truthy (lookup (cells h t) ''headers'')
         then lookup (cells h' t) ''headers'' = lookup (cells h t) ''headers''
            \<and> (is_object (lookup (cells h t) ''headers'') \<longrightarrow>
                 get_prop h' (lookup (cells h t) ''headers'') ''Content-Type''
                   = Inr (Str ''application/json'')
               \<and> get_prop h' (lookup (cells h t) ''headers'') ''Accept''
                   = Inr (Str ''application/json''))
         else lookup (cells h' t) ''headers'' = Ref (fresh h)
            \<and> cells h' (fresh h) =
                 [(''Content-Type'', Str ''application/json''),
                  (''Accept'', Str ''application/json'')])"
proof -
  let ?h1 = "h\<lparr>cells := (cells h)(t := AList.update ''body'' s (cells h t))\<rparr>"
  have bh: "body_handling env h (Ref t) = set_json_headers ?h1 (Ref t)"
    using assms(2,3) by (simp add: body_handling_def)
  have hv: "lookup (cells ?h1 t) ''headers'' = lookup (cells h t) ''headers''"
    by (simp add: lookup_update)
  have old: "lookup (cells ?h1 t) k = (if k = ''body'' then s else lookup (cells h t) k)" for k
    by (simp add: lookup_update)
  show ?thesis
  proof (cases "truthy (lookup (cells h t) ''headers'')")
    case True
    from set_json_headers_present [OF hv True] obtain h' where
      h': "set_json_headers ?h1 (Ref t) = Inr h'"
      and a: "lookup (cells h' t) ''headers'' = lookup (cells h t) ''headers''"
      and b: "\<forall>k. k \<noteq> ''Content-Type'' \<and> k \<noteq> ''Accept'' \<longrightarrow>
            lookup (cells h' t) k = lookup (cells ?h1 t) k"
      and c: "is_object (lookup (cells h t) ''headers'') \<longrightarrow>
            get_prop h' (lookup (cells h t) ''headers'') ''Content-Type''
              = Inr (Str ''application/json'')
          \<and> get_prop h' (lookup (cells h t) ''headers'') ''Accept''
              = Inr (Str ''application/json'')"
      by blast
    have "lookup (cells h' t) ''body'' = s"
      using b old by simp
    moreover have "body_handling env h (Ref t) = Inr h'"
      using bh h' by simp
    moreover have "\<forall>k. k \<noteq> ''body'' \<and> k \<noteq> ''headers'' \<and> k \<noteq> ''Content-Type'' \<and> k \<noteq> ''Accept''
        \<longrightarrow> lookup (cells h' t) k = lookup (cells h t) k"
      using b old by simp
    ultimately show ?thesis
      using True a c by auto
  next
    case False
    have fr: "t < fresh ?h1" using assms(1) by simp
    from False hv have nt: "\<not> truthy (lookup (cells ?h1 t) ''headers'')" by simp
    from set_json_headers_absent [OF fr nt] obtain h' where
      h': "set_json_headers ?h1 (Ref t) = Inr h'"
      and a: "lookup (cells h' t) ''headers'' = Ref (fresh ?h1)"
      and b: "\<forall>k. k \<noteq> ''headers'' \<longrightarrow> lookup (cells h' t) k = lookup (cells ?h1 t) k"
      and c: "cells h' (fresh ?h1) =
          [(''Content-Type'', Str ''application/json''), (''Accept'', Str ''application/json'')]"
      by blast
    have "lookup (cells h' t) ''body'' = s"
      using b old by simp
    moreover have "body_handling env h (Ref t) = Inr h'"
      using bh h' by simp
    moreover have "\<forall>k. k \<noteq> ''body'' \<and> k \<noteq> ''headers'' \<and> k \<noteq> ''Content-Type'' \<and> k \<noteq> ''Accept''
        \<longrightarrow> lookup (cells h' t) k = lookup (cells h t) k"
      using b old by simp
    ultimately show ?thesis
      using False a c by auto
  qed
qed

text \<open>Lines 66 to 68 on an object whose body is not one.\<close>

lemma body_handling_plain:
  assumes "typeof (lookup (cells h t) ''body'') \<noteq> ''object''"
  shows "\<exists>h'. body_handling env h (Ref t) = Inr h'
     \<and> lookup (cells h' t) ''body'' =
          (if typeof (lookup (cells h t) ''body'') = ''string''
           then lookup (cells h t) ''body'' else Undefined)
     \<and> (\<forall>k. k \<noteq> ''body'' \<longrightarrow> lookup (cells h' t) k = lookup (cells h t) k)"
  using assms by (simp add: body_handling_def lookup_delete)

text \<open>Lines 70 to 105 once the body is settled: the call throws what
  \<^verbatim>\<open>http.request\<close> throws, or returns the pending promise.\<close>

lemma send_after_body:
  assumes "body_handling env h (Ref t) = Inr h'" and "lookup (cells h' t) ''body'' = p"
  shows "send env h (Ref t) =
     (case http_request env h' (Ref t) of
        Some e \<Rightarrow> Inl e
      | None \<Rightarrow>
          Inr (h', \<lparr>promise = Pending,
                    sent = Some \<lparr>req_options = Ref t, req_payload = p\<rparr>\<rparr>))"
  using assms by (simp add: send_def split: option.splits)

text \<open>
  Claim C6. When lines 52 to 59 leave an object \<open>Ref t\<close> as \<^verbatim>\<open>requestOptions\<close> whose
  body is an object, and \<^verbatim>\<open>JSON.stringify\<close> returns \<open>s\<close> for it, then the store
  \<open>h'\<close> handed to \<^verbatim>\<open>http.request\<close> has \<open>s\<close> as body and a headers object holding
  \<^verbatim>\<open>Content-Type: application/json\<close> and \<^verbatim>\<open>Accept: application/json\<close>. That
  headers object is the one the input named, or, when the input named none, a new object
  holding just these two entries. The call throws what \<^verbatim>\<open>http.request\<close> throws on
  these options, if it throws; otherwise \<open>s\<close> is what \<^verbatim>\<open>.end\<close> transmits and the
  pending promise is returned. The headers of the input are a mapping or absent, as the
  data model has them.
\<close>

theorem structured_body_sent_as_json:
  assumes "normalize env h options = Inr (Some (h1, Ref t))"
    and "t < fresh h1"
    and "lookup (cells h1 t) ''body'' = Ref b"
    and "json_stringify env h1 (Ref b) = Inr s"
    and "truthy (lookup (cells h1 t) ''headers'') \<longrightarrow> is_object (lookup (cells h1 t) ''headers'')"
  shows "\<exists>h' hd. pRequest env h options =
            (case http_request env h' (Ref t) of
               Some e \<Rightarrow> Inl e
             | None \<Rightarrow>
                 Inr (h', \<lparr>promise = Pending,
                           sent = Some \<lparr>req_options = Ref t, req_payload = s\<rparr>\<rparr>))
     \<and> get_prop h' (Ref t) ''body'' = Inr s
     \<and> get_prop h' (Ref t) ''headers'' = Inr hd
     \<and> get_prop h' hd ''Content-Type'' = Inr (Str ''application/json'')
     \<and> get_prop h' hd ''Accept'' = Inr (Str ''application/json'')
     \<and> (if truthy (lookup (cells h1 t) ''headers'')
         then hd = lookup (cells h1 t) ''headers''
         else hd = Ref (fresh h1)
            \<and> cells h' (fresh h1) =
                 [(''Content-Type'', Str ''application/json''),
                  (''Accept'', Str ''application/json'')])"
proof -
  have ty: "typeof (lookup (cells h1 t) ''body'') = ''object''"
    using assms(3) by simp
  have js: "json_stringify env h1 (lookup (cells h1 t) ''body'') = Inr s"
    using assms(3,4) by simp
  have pr: "pRequest env h options = send env h1 (Ref t)"
    using assms(1) by (simp add: pRequest_def)
  from body_handling_json [OF assms(2) ty js] obtain h' where
    bh: "body_handling env h1 (Ref t) = Inr h'"
    and bd: "lookup (cells h' t) ''body'' = s"
    and hd: "if truthy (lookup (cells h1 t) ''headers'')
         then lookup (cells h' t) ''headers'' = lookup (cells h1 t) ''headers''
            \<and> (is_object (lookup (cells h1 t) ''headers'') \<longrightarrow>
                 get_prop h' (lookup (cells h1 t) ''headers'') ''Content-Type''
                   = Inr (Str ''application/json'')
               \<and> get_prop h' (lookup (cells h1 t) ''headers'') ''Accept''
                   = Inr (Str ''application/json''))
         else lookup (cells h' t) ''headers'' = Ref (fresh h1)
            \<and> cells h' (fresh h1) =
                 [(''Content-Type'', Str ''application/json''),
                  (''Accept'', Str ''application/json'')]"
    by blast
  have s: "pRequest env h options =
      (case http_request env h' (Ref t) of
         Some e \<Rightarrow> Inl e
       | None \<Rightarrow>
           Inr (h', \<lparr>promise = Pending,
                     sent = Some \<lparr>req_options = Ref t, req_payload = s\<rparr>\<rparr>))"
    using pr send_after_body [OF bh bd] by simp
  show ?thesis
  proof (cases "truthy (lookup (cells h1 t) ''headers'')")
    case True
    with hd assms(5) s bd show ?thesis
      by (intro exI [of _ h'] exI [of _ "lookup (cells h1 t) ''headers''"]) simp
  next
    case False
    with hd s bd show ?thesis
      by (intro exI [of _ h'] exI [of _ "Ref (fresh h1)"]) (simp add: lookup_def)
  qed
qed

theorem structured_body_sent_as_json_witness:
  "\<exists>h'. pRequest sample_host
      \<lparr>cells = (\<lambda>a. [])(0 := [(''url'', Str ''http://example.com/''),
                                (''method'', Str ''POST''), (''body'', Ref 1)]),
       fresh = 2\<rparr> (Ref 0)
     = Inr (h', \<lparr>promise = Pending,
                 sent = Some \<lparr>req_options = Ref 2, req_payload = Str ''{}''\<rparr>\<rparr>)
   \<and> get_prop h' (Ref 2) ''headers'' = Inr (Ref 3)
   \<and> get_prop h' (Ref 3) ''Content-Type'' = Inr (Str ''application/json'')
   \<and> get_prop h' (Ref 3) ''Accept'' = Inr (Str ''application/json'')"
proof -
  let ?H = "\<lparr>cells = (\<lambda>a. [])(0 := [(''url'', Str ''http://example.com/''),
                                (''method'', Str ''POST''), (''body'', Ref 1)]),
       fresh = 2\<rparr>"
  have "\<exists>h1. normalize sample_host ?H (Ref 0) = Inr (Some (h1, Ref 2))
      \<and> fresh h1 = 3
      \<and> lookup (cells h1 2) ''body'' = Ref 1
      \<and> json_stringify sample_host h1 (Ref 1) = Inr (Str ''{}'')
      \<and> lookup (cells h1 2) ''headers'' = Undefined"
    by (simp add: pRequest_defs sample_host_def lookup_def url_object_def url_keys_def)
  then obtain h1 where n: "normalize sample_host ?H (Ref 0) = Inr (Some (h1, Ref 2))"
    and f: "fresh h1 = 3"
    and b: "lookup (cells h1 2) ''body'' = Ref 1"
    and j: "json_stringify sample_host h1 (Ref 1) = Inr (Str ''{}'')"
    and u: "lookup (cells h1 2) ''headers'' = Undefined"
    by blast
  have lt: "2 < fresh h1" using f by simp
  have ob: "truthy (lookup (cells h1 2) ''headers'')
      \<longrightarrow> is_object (lookup (cells h1 2) ''headers'')"
    using u by simp
  have ok: "returned (pRequest sample_host ?H (Ref 0)) \<noteq> None"
    by (simp add: returned_def pRequest_defs sample_host_def sample_request_def
        sample_component_def lookup_def url_object_def url_keys_def)
  from structured_body_sent_as_json [OF n lt b j ob] obtain h' hd where
    p: "pRequest sample_host ?H (Ref 0) =
          (case http_request sample_host h' (Ref 2) of
             Some e \<Rightarrow> Inl e
           | None \<Rightarrow>
               Inr (h', \<lparr>promise = Pending,
                         sent = Some \<lparr>req_options = Ref 2, req_payload = Str ''{}''\<rparr>\<rparr>))"
    and g: "get_prop h' (Ref 2) ''headers'' = Inr hd"
      "get_prop h' hd ''Content-Type'' = Inr (Str ''application/json'')"
      "get_prop h' hd ''Accept'' = Inr (Str ''application/json'')"
    and c: "if truthy (lookup (cells h1 2) ''headers'')
         then hd = lookup (cells h1 2) ''headers''
         else hd = Ref (fresh h1)
            \<and> cells h' (fresh h1) =
                 [(''Content-Type'', Str ''application/json''),
                  (''Accept'', Str ''application/json'')]"
    by blast
  from c u f have hd: "hd = Ref 3" by simp
  from ok p have "pRequest sample_host ?H (Ref 0) =
      Inr (h', \<lparr>promise = Pending,
                sent = Some \<lparr>req_options = Ref 2, req_payload = Str ''{}''\<rparr>\<rparr>)"
    by (cases "http_request sample_host h' (Ref 2)") (simp_all add: returned_def)
  with g hd show ?thesis
    by blast
qed

text \<open>
  Claim C9. When the \<^verbatim>\<open>url\<close> field of the input is an object \<open>Ref t\<close>, that object
  itself becomes \<^verbatim>\<open>requestOptions\<close>: line 54 writes every field of the input onto it
  (the \<^verbatim>\<open>url\<close> field too, so the target now points at itself) and touches no other
  object; an object stored as its body is replaced by the JSON text, and
  \<^verbatim>\<open>Content-Type\<close> and \<^verbatim>\<open>Accept\<close> are written into the headers object it
  references, which is the caller's own. \<open>h'\<close> is the store as these writes leave it, which
  is how \<^verbatim>\<open>http.request\<close> finds it: the call throws what \<^verbatim>\<open>http.request\<close> throws
  on the caller's object, if it throws, and otherwise the request is issued from that
  object and the pending promise is returned.
\<close>

theorem target_object_mutated_in_place:
  assumes "get_prop h (Ref o') ''url'' = Inr (Ref t)" and "t < fresh h"
  shows "\<exists>h1. normalize env h (Ref o') = Inr (Some (h1, Ref t))
     \<and> (\<forall>a. a \<noteq> t \<longrightarrow> cells h1 a = cells h a)
     \<and> (\<forall>k \<in> fst ` set (cells h o'). lookup (cells h1 t) k = lookup (cells h o') k)
     \<and> (\<forall>s. typeof (lookup (cells h1 t) ''body'') = ''object''
              \<and> json_stringify env h1 (lookup (cells h1 t) ''body'') = Inr s \<longrightarrow>
           (\<exists>h'. pRequest env h (Ref o') =
                    (case http_request env h' (Ref t) of
                       Some e \<Rightarrow> Inl e
                     | None \<Rightarrow>
                         Inr (h', \<lparr>promise = Pending,
                                   sent = Some \<lparr>req_options = Ref t, req_payload = s\<rparr>\<rparr>))
              \<and> lookup (cells h' t) ''url'' = Ref t
              \<and> lookup (cells h' t) ''method'' = lookup (cells h1 t) ''method''
              \<and> lookup (cells h' t) ''body'' = s
              \<and> (is_object (lookup (cells h1 t) ''headers'') \<longrightarrow>
                    lookup (cells h' t) ''headers'' = lookup (cells h1 t) ''headers''
                  \<and> get_prop h' (lookup (cells h1 t) ''headers'') ''Content-Type''
                      = Inr (Str ''application/json'')
                  \<and> get_prop h' (lookup (cells h1 t) ''headers'') ''Accept''
                      = Inr (Str ''application/json''))))
     \<and> (typeof (lookup (cells h1 t) ''body'') \<noteq> ''object'' \<longrightarrow>
           (\<exists>h'. pRequest env h (Ref o') =
                    (case http_request env h' (Ref t) of
                       Some e \<Rightarrow> Inl e
                     | None \<Rightarrow>
                         Inr (h', \<lparr>promise = Pending,
                                   sent = Some \<lparr>req_options = Ref t,
                                     req_payload =
                                       (if typeof (lookup (cells h1 t) ''body'') = ''string''
                                        then lookup (cells h1 t) ''body'' else Undefined)\<rparr>\<rparr>))
              \<and> lookup (cells h' t) ''url'' = Ref t
              \<and> lookup (cells h' t) ''method'' = lookup (cells h1 t) ''method''))"
proof -
  from normalize_object_url [OF assms(1), of env] obtain h1 where
    n: "normalize env h (Ref o') = Inr (Some (h1, Ref t))"
    and fr: "fresh h1 = fresh h"
    and oth: "\<forall>a. a \<noteq> t \<longrightarrow> cells h1 a = cells h a"
    and tgt: "\<forall>k. lookup (cells h1 t) k =
               (if k \<in> fst ` set (cells h o') then lookup (cells h o') k
                else lookup (cells h t) k)"
    by blast
  have pr: "pRequest env h (Ref o') = send env h1 (Ref t)"
    using n by (simp add: pRequest_def)
  have copy: "\<forall>k \<in> fst ` set (cells h o'). lookup (cells h1 t) k = lookup (cells h o') k"
    using tgt by simp
  have key: "''url'' \<in> fst ` set (cells h o')"
  proof -
    from assms(1) have "map_of (cells h o') ''url'' = Some (Ref t)"
      by (simp add: lookup_def split: option.splits)
    then show ?thesis
      by (meson domI dom_map_of_conv_image_fst [THEN equalityD1, THEN subsetD])
  qed
  have url: "lookup (cells h1 t) ''url'' = Ref t"
    using tgt key assms(1) by simp
  have lt: "t < fresh h1" using fr assms(2) by simp
  have json: "\<exists>h'. pRequest env h (Ref o') =
                    (case http_request env h' (Ref t) of
                       Some e \<Rightarrow> Inl e
                     | None \<Rightarrow>
                         Inr (h', \<lparr>promise = Pending,
                                   sent = Some \<lparr>req_options = Ref t, req_payload = s\<rparr>\<rparr>))
              \<and> lookup (cells h' t) ''url'' = Ref t
              \<and> lookup (cells h' t) ''method'' = lookup (cells h1 t) ''method''
              \<and> lookup (cells h' t) ''body'' = s
              \<and> (is_object (lookup (cells h1 t) ''headers'') \<longrightarrow>
                    lookup (cells h' t) ''headers'' = lookup (cells h1 t) ''headers''
                  \<and> get_prop h' (lookup (cells h1 t) ''headers'') ''Content-Type''
                      = Inr (Str ''application/json'')
                  \<and> get_prop h' (lookup (cells h1 t) ''headers'') ''Accept''
                      = Inr (Str ''application/json''))"
    if ty: "typeof (lookup (cells h1 t) ''body'') = ''object''"
      and js: "json_stringify env h1 (lookup (cells h1 t) ''body'') = Inr s" for s
  proof -
    from body_handling_json [OF lt ty js] obtain h' where
      bh: "body_handling env h1 (Ref t) = Inr h'"
      and b: "lookup (cells h' t) ''body'' = s"
      and k: "\<forall>k. k \<noteq> ''body'' \<and> k \<noteq> ''headers'' \<and> k \<noteq> ''Content-Type'' \<and> k \<noteq> ''Accept'' \<longrightarrow>
            lookup (cells h' t) k = lookup (cells h1 t) k"
      and hd: "if truthy (lookup (cells h1 t) ''headers'')
         then lookup (cells h' t) ''headers'' = lookup (cells h1 t) ''headers''
            \<and> (is_object (lookup (cells h1 t) ''headers'') \<longrightarrow>
                 get_prop h' (lookup (cells h1 t) ''headers'') ''Content-Type''
                   = Inr (Str ''application/json'')
               \<and> get_prop h' (lookup (cells h1 t) ''headers'') ''Accept''
                   = Inr (Str ''application/json''))
         else lookup (cells h' t) ''headers'' = Ref (fresh h1)
            \<and> cells h' (fresh h1) =
                 [(''Content-Type'', Str ''application/json''),
                  (''Accept'', Str ''application/json'')]"
      by blast
    have tr: "is_object v \<Longrightarrow> truthy v" for v
      by (cases v) simp_all
    have "pRequest env h (Ref o') =
        (case http_request env h' (Ref t) of
           Some e \<Rightarrow> Inl e
         | None \<Rightarrow>
             Inr (h', \<lparr>promise = Pending,
                       sent = Some \<lparr>req_options = Ref t, req_payload = s\<rparr>\<rparr>))"
      using pr send_after_body [OF bh b] by simp
    moreover have "lookup (cells h' t) ''url'' = Ref t"
      using k url by simp
    moreover have "lookup (cells h' t) ''method'' = lookup (cells h1 t) ''method''"
      using k by simp
    ultimately show ?thesis
      using b hd tr by auto
  qed
  have plain: "\<exists>h'. pRequest env h (Ref o') =
                    (case http_request env h' (Ref t) of
                       Some e \<Rightarrow> Inl e
                     | None \<Rightarrow>
                         Inr (h', \<lparr>promise = Pending,
                                   sent = Some \<lparr>req_options = Ref t,
                                     req_payload =
                                       (if typeof (lookup (cells h1 t) ''body'') = ''string''
                                        then lookup (cells h1 t) ''body'' else Undefined)\<rparr>\<rparr>))
              \<and> lookup (cells h' t) ''url'' = Ref t
              \<and> lookup (cells h' t) ''method'' = lookup (cells h1 t) ''method''"
    if ty: "typeof (lookup (cells h1 t) ''body'') \<noteq> ''object''"
  proof -
    from body_handling_plain [OF ty, of env] obtain h' where
      bh: "body_handling env h1 (Ref t) = Inr h'"
      and b: "lookup (cells h' t) ''body'' =
          (if typeof (lookup (cells h1 t) ''body'') = ''string''
           then lookup (cells h1 t) ''body'' else Undefined)"
      and k: "\<forall>k. k \<noteq> ''body'' \<longrightarrow> lookup (cells h' t) k = lookup (cells h1 t) k"
      by blast
    have "pRequest env h (Ref o') =
        (case http_request env h' (Ref t) of
           Some e \<Rightarrow> Inl e
         | None \<Rightarrow>
             Inr (h', \<lparr>promise = Pending,
                       sent = Some \<lparr>req_options = Ref t,
                         req_payload =
                           (if typeof (lookup (cells h1 t) ''body'') = ''string''
                            then lookup (cells h1 t) ''body'' else Undefined)\<rparr>\<rparr>))"
      using pr send_after_body [OF bh b] by simp
    then show ?thesis
      using k url by auto
  qed
  from n oth copy json plain show ?thesis
    by blast
qed

theorem target_object_mutated_in_place_witness:
  "\<exists>h'. pRequest sample_host caller_heap (Ref 0) =
           Inr (h', \<lparr>promise = Pending,
                     sent = Some \<lparr>req_options = Ref 1, req_payload = Str ''{}''\<rparr>\<rparr>)
     \<and> lookup (cells h' 1) ''url'' = Ref 1
     \<and> lookup (cells h' 1) ''method'' = Str ''POST''
     \<and> lookup (cells h' 1) ''body'' = Str ''{}''
     \<and> lookup (cells h' 1) ''headers'' = Ref 3
     \<and> get_prop h' (Ref 3) ''Content-Type'' = Inr (Str ''application/json'')
     \<and> get_prop h' (Ref 3) ''Accept'' = Inr (Str ''application/json'')"
proof -
  have u: "get_prop caller_heap (Ref 0) ''url'' = Inr (Ref 1)"
    by (simp add: caller_heap_def lookup_def)
  have f: "1 < fresh caller_heap"
    by (simp add: caller_heap_def)
  have keys: "fst ` set (cells caller_heap 0) = {''url'', ''method'', ''body'', ''headers''}"
    by (simp add: caller_heap_def)
  have ok: "returned (pRequest sample_host caller_heap (Ref 0)) \<noteq> None"
    by (simp add: returned_def pRequest_defs sample_host_def sample_request_def
        caller_heap_def lookup_def)
  from target_object_mutated_in_place [OF u f, of sample_host] obtain h1 where
    oth: "\<forall>a. a \<noteq> 1 \<longrightarrow> cells h1 a = cells caller_heap a"
    and copy: "\<forall>k \<in> fst ` set (cells caller_heap 0).
                 lookup (cells h1 1) k = lookup (cells caller_heap 0) k"
    and json: "\<forall>s. typeof (lookup (cells h1 1) ''body'') = ''object''
              \<and> json_stringify sample_host h1 (lookup (cells h1 1) ''body'') = Inr s \<longrightarrow>
           (\<exists>h'. pRequest sample_host caller_heap (Ref 0) =
                    (case http_request sample_host h' (Ref 1) of
                       Some e \<Rightarrow> Inl e
                     | None \<Rightarrow>
                         Inr (h', \<lparr>promise = Pending,
                                   sent = Some \<lparr>req_options = Ref 1, req_payload = s\<rparr>\<rparr>))
              \<and> lookup (cells h' 1) ''url'' = Ref 1
              \<and> lookup (cells h' 1) ''method'' = lookup (cells h1 1) ''method''
              \<and> lookup (cells h' 1) ''body'' = s
              \<and> (is_object (lookup (cells h1 1) ''headers'') \<longrightarrow>
                    lookup (cells h' 1) ''headers'' = lookup (cells h1 1) ''headers''
                  \<and> get_prop h' (lookup (cells h1 1) ''headers'') ''Content-Type''
                      = Inr (Str ''application/json'')
                  \<and> get_prop h' (lookup (cells h1 1) ''headers'') ''Accept''
                      = Inr (Str ''application/json'')))"
    by blast
  have b: "lookup (cells h1 1) ''body'' = Ref 2"
    using copy keys by (simp add: caller_heap_def lookup_def)
  have m: "lookup (cells h1 1) ''method'' = Str ''POST''"
    using copy keys by (simp add: caller_heap_def lookup_def)
  have hd: "lookup (cells h1 1) ''headers'' = Ref 3"
    using copy keys by (simp add: caller_heap_def lookup_def)
  have "cells h1 2 = []"
    using oth by (simp add: caller_heap_def)
  then have js: "json_stringify sample_host h1 (Ref 2) = Inr (Str ''{}'')"
    by (simp add: sample_host_def)
  from json [rule_format, of "Str ''{}''"] b m hd js obtain h' where
    p: "pRequest sample_host caller_heap (Ref 0) =
          (case http_request sample_host h' (Ref 1) of
             Some e \<Rightarrow> Inl e
           | None \<Rightarrow>
               Inr (h', \<lparr>promise = Pending,
                         sent = Some \<lparr>req_options = Ref 1, req_payload = Str ''{}''\<rparr>\<rparr>))"
    and r: "lookup (cells h' 1) ''url'' = Ref 1"
      "lookup (cells h' 1) ''method'' = Str ''POST''"
      "lookup (cells h' 1) ''body'' = Str ''{}''"
      "lookup (cells h' 1) ''headers'' = Ref 3"
      "get_prop h' (Ref 3) ''Content-Type'' = Inr (Str ''application/json'')"
      "get_prop h' (Ref 3) ''Accept'' = Inr (Str ''application/json'')"
    by auto
  from ok p have "pRequest sample_host caller_heap (Ref 0) =
      Inr (h', \<lparr>promise = Pending,
                sent = Some \<lparr>req_options = Ref 1, req_payload = Str ''{}''\<rparr>\<rparr>)"
    by (cases "http_request sample_host h' (Ref 1)") (simp_all add: returned_def)
  with r show ?thesis
    by blast
qed

lemma extend_loop_nullish:
  assumes "origin = Undefined \<or> origin = Null" and "ks \<noteq> []"
  shows "extend_loop strict h origin (Ref o') ks = Inl TypeError"
  using assms by (cases ks) auto

lemma extend_loop_primitive_strict:
  assumes "typeof origin = ''boolean'' \<or> typeof origin = ''number''" and "ks \<noteq> []"
  shows "extend_loop True h origin (Ref o') ks = Inl TypeError"
  using assms by (cases ks; cases origin) auto

text \<open>
  Claim C10, amended. For an object input whose \<^verbatim>\<open>url\<close> field is absent,
  \<^verbatim>\<open>undefined\<close> or \<^verbatim>\<open>null\<close>, the call throws a TypeError to the caller and
  returns no promise: \<^verbatim>\<open>util._extend\<close> writes onto it, or, when the input has no
  field at all, line 61 reads \<^verbatim>\<open>body\<close> of it. For a number or a boolean the same
  holds where \<^verbatim>\<open>util._extend\<close> runs in strict mode.
\<close>

theorem missing_url_throws:
  assumes "get_prop h (Ref o') ''url'' = Inr u"
    and "u = Undefined \<or> u = Null
         \<or> (strict_lib env \<and> (typeof u = ''boolean'' \<or> typeof u = ''number''))"
  shows "pRequest env h (Ref o') = Inl TypeError"
proof -
  have str: "typeof u \<noteq> ''string''"
    using assms(2) by auto
  consider (undef) "u = Undefined" | (null) "u = Null"
    | (prim) "strict_lib env" "typeof u = ''boolean'' \<or> typeof u = ''number''"
    using assms(2) by blast
  then show ?thesis
  proof cases
    case undef
    show ?thesis
    proof (cases "cells h o' = []")
      case True
      with undef assms(1) show ?thesis
        by (simp add: pRequest_def normalize_def util_extend_def send_def body_handling_def)
    next
      case False
      then have "extend_loop (strict_lib env) h u (Ref o') (rev (map fst (cells h o')))
          = Inl TypeError"
        using undef by (intro extend_loop_nullish) simp_all
      with undef assms(1) show ?thesis
        by (simp add: pRequest_def normalize_def util_extend_def)
    qed
  next
    case null
    from null assms(1) have "cells h o' \<noteq> []"
      by (auto simp: lookup_def)
    then have "extend_loop (strict_lib env) h u (Ref o') (rev (map fst (cells h o')))
        = Inl TypeError"
      using null by (intro extend_loop_nullish) simp_all
    with null assms(1) show ?thesis
      by (simp add: pRequest_def normalize_def util_extend_def)
  next
    case prim
    from prim(2) assms(1) have "cells h o' \<noteq> []"
      by (auto simp: lookup_def)
    then have "extend_loop True h u (Ref o') (rev (map fst (cells h o'))) = Inl TypeError"
      using prim(2) by (intro extend_loop_primitive_strict) simp_all
    with prim str assms(1) show ?thesis
      by (simp add: pRequest_def normalize_def util_extend_def)
  qed
qed

theorem missing_url_throws_witness:
  "pRequest sample_host \<lparr>cells = (\<lambda>a. [])(0 := [(''method'', Str ''GET'')]), fresh = 1\<rparr> (Ref 0)
   = Inl TypeError"
proof -
  have "get_prop \<lparr>cells = (\<lambda>a. [])(0 := [(''method'', Str ''GET'')]), fresh = 1\<rparr> (Ref 0)
      ''url'' = Inr Undefined"
    by (simp add: lookup_def)
  from missing_url_throws [OF this, of sample_host] show ?thesis
    by simp
qed

text \<open>
  Claim C10 as stated, for every \<^verbatim>\<open>url\<close> that is neither a string nor an object,
  fails. With \<^verbatim>\<open>url: 42\<close> and a sloppy-mode \<^verbatim>\<open>util._extend\<close> the writes onto the
  number are dropped, line 67 deletes nothing, and the call returns a pending promise
  after handing \<^verbatim>\<open>42\<close> to \<^verbatim>\<open>http.request\<close>. With a function as \<^verbatim>\<open>url\<close>
  (\<^verbatim>\<open>typeof\<close> answers \<^verbatim>\<open>'function'\<close>) the writes succeed in either mode and the
  call returns a pending promise as well.
\<close>

theorem non_object_url_returns_handle:
  "returned (pRequest sample_host
      \<lparr>cells = (\<lambda>a. [])(0 := [(''url'', Num 42)]), fresh = 1\<rparr> (Ref 0))
   = Some \<lparr>promise = Pending,
           sent = Some \<lparr>req_options = Num 42, req_payload = Undefined\<rparr>\<rparr>
   \<and> returned (pRequest (sample_host\<lparr>strict_lib := True\<rparr>)
      \<lparr>cells = (\<lambda>a. [])(0 := [(''url'', Fn 1)]), fresh = 2\<rparr> (Ref 0))
   = Some \<lparr>promise = Pending,
           sent = Some \<lparr>req_options = Fn 1, req_payload = Undefined\<rparr>\<rparr>"
  by (simp add: returned_def pRequest_defs sample_host_def sample_request_def lookup_def)

end
